(* ===== verification/Prelude.thy ===== *)
theory Prelude
  imports Complex_Main "HOL-Library.Word"
begin

text \<open>
  Shared vocabulary of the development of \<^verbatim>\<open>src/main.cpp\<close>.
  \<^item> \<open>dublu\<close>: the C++ \<^verbatim>\<open>double\<close> amounts (balances, limits, rates), read as exact
    rationals; IEEE rounding is not modelled.
  \<^item> \<open>int32\<close>: the C++ \<^verbatim>\<open>int\<close> of the static counter, a 32-bit word read by \<open>sint\<close>.
  \<^item> \<open>adresa\<close>: the address of a live C++ object in the modelled store.
  \<^item> \<open>('s, 'e, 'a) exc\<close>: a computation over a state \<open>'s\<close> that either returns an
    \<open>'a\<close> (\<open>Inr\<close>) or propagates an error \<open>'e\<close> (\<open>Inl\<close>): C++ statements that may
    \<^verbatim>\<open>throw\<close>. \<open>bind_e\<close> is sequencing (an error skips the rest), \<open>catch_e\<close> is
    \<^verbatim>\<open>try/catch\<close>, \<open>finally_e\<close> runs a clean-up action on both paths, as the
    destructors of a scope do during stack unwinding.
  The collection \<open>exec_simps\<close> holds the equations that evaluate these combinators.
\<close>

type_synonym dublu = rat
type_synonym int32 = "32 word"
type_synonym adresa = nat
type_synonym ('s, 'e, 'a) exc = "'s \<Rightarrow> ('e + 'a) \<times> 's"

named_theorems exec_simps "equations that evaluate the exception-state combinators"

definition return_e :: "'a \<Rightarrow> ('s, 'e, 'a) exc" where
  "return_e x s = (Inr x, s)"

definition raise_e :: "'e \<Rightarrow> ('s, 'e, 'a) exc" where
  "raise_e e s = (Inl e, s)"

definition bind_e :: "('s, 'e, 'a) exc \<Rightarrow> ('a \<Rightarrow> ('s, 'e, 'b) exc) \<Rightarrow> ('s, 'e, 'b) exc" where
  "bind_e m f s = (case m s of (Inl e, s') \<Rightarrow> (Inl e, s') | (Inr x, s') \<Rightarrow> f x s')"

definition then_e :: "('s, 'e, 'a) exc \<Rightarrow> ('s, 'e, 'b) exc \<Rightarrow> ('s, 'e, 'b) exc" where
  "then_e m n = bind_e m (\<lambda>_. n)"

definition catch_e :: "('s, 'e, 'a) exc \<Rightarrow> ('e \<Rightarrow> ('s, 'e, 'a) exc) \<Rightarrow> ('s, 'e, 'a) exc" where
  "catch_e m h s = (case m s of (Inl e, s') \<Rightarrow> h e s' | (Inr x, s') \<Rightarrow> (Inr x, s'))"

definition finally_e :: "('s, 'e, 'a) exc \<Rightarrow> ('s, 'e, unit) exc \<Rightarrow> ('s, 'e, 'a) exc" where
  "finally_e m f s =
     (case m s of (r, s') \<Rightarrow>
        (case f s' of (Inl e, s'') \<Rightarrow> (Inl e, s'') | (Inr _, s'') \<Rightarrow> (r, s'')))"

declare return_e_def [exec_simps] raise_e_def [exec_simps] bind_e_def [exec_simps]
  then_e_def [exec_simps] catch_e_def [exec_simps] finally_e_def [exec_simps]

subsection \<open>Laws of the exception-state combinators\<close>

lemma bind_e_return_left [simp]: "bind_e (return_e x) f = f x"
  by (simp add: fun_eq_iff exec_simps)

lemma bind_e_return_right [simp]: "bind_e m return_e = m"
proof
  fix s
  show "bind_e m return_e s = m s"
    by (cases "m s" rule: prod.exhaust) (auto simp: exec_simps split: sum.split)
qed

lemma bind_e_raise [simp]: "bind_e (raise_e e) f = raise_e e"
  by (simp add: fun_eq_iff exec_simps)

lemma bind_e_assoc: "bind_e (bind_e m f) g = bind_e m (\<lambda>x. bind_e (f x) g)"
proof
  fix s
  show "bind_e (bind_e m f) g s = bind_e m (\<lambda>x. bind_e (f x) g) s"
    by (cases "m s" rule: prod.exhaust) (auto simp: exec_simps split: sum.split)
qed

lemma catch_e_return [simp]: "catch_e (return_e x) h = return_e x"
  by (simp add: fun_eq_iff exec_simps)

lemma catch_e_raise [simp]: "catch_e (raise_e e) h = h e"
  by (simp add: fun_eq_iff exec_simps)

subsection \<open>Words: the 32-bit counter\<close>

lemma sint_word_of_nat_small:
  "n < 2 ^ 31 \<Longrightarrow> sint (word_of_nat n :: int32) = int n"
  by (simp add: sint_uint take_bit_nat_eq_self signed_take_bit_int_eq_self unsigned_of_nat)

lemma word_of_nat_pred:
  "0 < n \<Longrightarrow> (word_of_nat (n - 1) :: 'a::len word) = word_of_nat n - 1"
  by (simp add: of_nat_diff)

subsection \<open>Maps: the store of live objects\<close>

lemma insert_dom_live [simp]: "m a \<noteq> None \<Longrightarrow> insert a (dom m) = dom m"
  by auto

lemma card_dom_delete_pos:
  "finite (dom m) \<Longrightarrow> m a = Some v \<Longrightarrow> 0 < card (dom m)"
  by (auto simp: card_gt_0_iff)

end
