(* ===== verification/Exceptii.thy ===== *)
theory Exceptii
  imports Prelude
begin

text \<open>
  The two exception classes of \<^verbatim>\<open>src/main.cpp\<close> (lines 25--33 and 104--110):
  \<^verbatim>\<open>ExceptieRetragere\<close>, thrown by the base and credit withdrawals, and
  \<^verbatim>\<open>ExceptieOverdraft\<close>, thrown by the checking-account withdrawal. Both derive
  from \<^verbatim>\<open>std::exception\<close> and carry nothing but the text \<^verbatim>\<open>what()\<close> returns.
  The error type \<open>eroare\<close> of a running program adds undefined behaviour (a method
  called through an address that holds no live object), which no \<^verbatim>\<open>catch\<close> handles.
\<close>

datatype exceptie = ExceptieRetragere | ExceptieOverdraft

fun what :: "exceptie \<Rightarrow> string" where
  "what ExceptieRetragere = ''Retragere ilegala!''"
| "what ExceptieOverdraft = ''Limita de overdraft depasita!''"

datatype eroare = Exceptie exceptie | ComportamentNedefinit

text \<open>The diagnostic printed by a handler names the exception: \<open>what\<close> is injective.\<close>

lemma what_inj: "what e1 = what e2 \<longleftrightarrow> e1 = e2"
  by (cases e1; cases e2) simp_all

end
