(* ===== verification/Cont.thy ===== *)
theory Cont
  imports Exceptii
begin

text \<open>
  One bank account object of \<^verbatim>\<open>src/main.cpp\<close> and its virtual methods. The class
  hierarchy \<^verbatim>\<open>ContBancar\<close> / \<^verbatim>\<open>ContCurent\<close> / \<^verbatim>\<open>ContEconomii\<close> /
  \<^verbatim>\<open>ContCredit\<close> is a record of the base fields (\<^verbatim>\<open>detinator_\<close>, \<^verbatim>\<open>sold_\<close>)
  and a datatype \<open>clasa\<close> that holds the dynamic type together with the fields the
  derived class adds (\<^verbatim>\<open>overdraft_\<close>; \<^verbatim>\<open>dobanda_\<close>; \<^verbatim>\<open>dobanda_\<close> and
  \<^verbatim>\<open>limitaCredit_\<close>). A method returns the updated object and the lines it writes
  to \<^verbatim>\<open>std::cout\<close>, as values of \<open>mesaj\<close> (one constructor per output statement,
  carrying the values it prints; the decimal formatting of \<^verbatim>\<open>operator<<\<close> is not
  modelled). A \<^verbatim>\<open>throw\<close> is the \<open>Inl\<close> branch of the result. Virtual calls
  (\<open>afisareSold\<close>, \<open>retragere\<close>) dispatch on \<open>clasa\<close>; each override is its
  own definition, named after the class that declares it.
\<close>

datatype clasa =
    Bancar
  | Curent dublu
  | Economii dublu
  | Credit dublu dublu

record cont =
  detinator :: string
  sold :: dublu
  clasa :: clasa

datatype mesaj =
    CtorBancar string | CtorCurent string | CtorEconomii string | CtorCredit string
  | DtorBancar string | DtorCurent string | DtorEconomii string | DtorCredit string
  | SoldBancar string dublu
  | SoldCurent string dublu | LimitaOverdraft dublu
  | SoldEconomii string dublu | Dobanda dublu
  | SoldCredit string dublu | LimitaCredit dublu
  | Retragere dublu string | RetragereCurent dublu string | RetragereCredit dublu string
  | DobandaActualizata string dublu
  | NumarConturi int
  | MesajExceptie string

subsection \<open>Displaying the balance (\<^verbatim>\<open>afisareSold\<close>)\<close>

definition afisareSold_ContBancar :: "cont \<Rightarrow> mesaj list" where
  "afisareSold_ContBancar c = [SoldBancar (detinator c) (sold c)]"

definition afisareSold_ContCurent :: "dublu \<Rightarrow> cont \<Rightarrow> mesaj list" where
  "afisareSold_ContCurent overdraft c =
     [SoldCurent (detinator c) (sold c), LimitaOverdraft overdraft]"

definition afisareSold_ContEconomii :: "dublu \<Rightarrow> cont \<Rightarrow> mesaj list" where
  "afisareSold_ContEconomii dobanda c = [SoldEconomii (detinator c) (sold c), Dobanda dobanda]"

definition afisareSold_ContCredit :: "dublu \<Rightarrow> dublu \<Rightarrow> cont \<Rightarrow> mesaj list" where
  "afisareSold_ContCredit dobanda limitaCredit c =
     [SoldCredit (detinator c) (sold c), Dobanda dobanda, LimitaCredit limitaCredit]"

text \<open>The virtual call \<^verbatim>\<open>cont.afisareSold()\<close>: the override of the dynamic type.\<close>

definition afisareSold :: "cont \<Rightarrow> mesaj list" where
  "afisareSold c =
     (case clasa c of
        Bancar \<Rightarrow> afisareSold_ContBancar c
      | Curent overdraft \<Rightarrow> afisareSold_ContCurent overdraft c
      | Economii dobanda \<Rightarrow> afisareSold_ContEconomii dobanda c
      | Credit dobanda limitaCredit \<Rightarrow> afisareSold_ContCredit dobanda limitaCredit c)"

subsection \<open>Withdrawal (\<^verbatim>\<open>retragere\<close>)\<close>

definition retragere_ContBancar :: "dublu \<Rightarrow> cont \<Rightarrow> exceptie + cont \<times> mesaj list" where
  "retragere_ContBancar suma c =
     (if 0 < suma \<and> suma \<le> sold c
      then Inr (c\<lparr>sold := sold c - suma\<rparr>, [Retragere suma (detinator c)])
      else Inl ExceptieRetragere)"

definition retragere_ContCurent :: "dublu \<Rightarrow> dublu \<Rightarrow> cont \<Rightarrow> exceptie + cont \<times> mesaj list" where
  "retragere_ContCurent overdraft suma c =
     (if 0 < suma \<and> suma \<le> sold c + overdraft
      then Inr (c\<lparr>sold := sold c - suma\<rparr>, [RetragereCurent suma (detinator c)])
      else Inl ExceptieOverdraft)"

definition retragere_ContCredit :: "dublu \<Rightarrow> dublu \<Rightarrow> cont \<Rightarrow> exceptie + cont \<times> mesaj list" where
  "retragere_ContCredit limitaCredit suma c =
     (if 0 < suma \<and> suma \<le> sold c + limitaCredit
      then Inr (c\<lparr>sold := sold c - suma\<rparr>, [RetragereCredit suma (detinator c)])
      else Inl ExceptieRetragere)"

text \<open>
  The virtual call \<^verbatim>\<open>cont.retragere(suma)\<close>. \<^verbatim>\<open>ContEconomii\<close> does not
  override \<^verbatim>\<open>retragere\<close>, so a savings account runs the base rule.
\<close>

definition retragere :: "dublu \<Rightarrow> cont \<Rightarrow> exceptie + cont \<times> mesaj list" where
  "retragere suma c =
     (case clasa c of
        Bancar \<Rightarrow> retragere_ContBancar suma c
      | Curent overdraft \<Rightarrow> retragere_ContCurent overdraft suma c
      | Economii _ \<Rightarrow> retragere_ContBancar suma c
      | Credit _ limitaCredit \<Rightarrow> retragere_ContCredit limitaCredit suma c)"

subsection \<open>Interest and the dispatch helper\<close>

text \<open>
  \<^verbatim>\<open>ContEconomii::actualizareDobanda\<close> is declared \<^verbatim>\<open>const\<close> but writes the
  \<^verbatim>\<open>mutable\<close> field \<^verbatim>\<open>sold_\<close>; the model returns the updated object.
\<close>

definition actualizareDobanda :: "dublu \<Rightarrow> cont \<Rightarrow> cont \<times> mesaj list" where
  "actualizareDobanda dobanda c =
     (let dobandaCalculata = sold c * (dobanda / 100);
          c' = c\<lparr>sold := sold c + dobandaCalculata\<rparr>
      in (c', [DobandaActualizata (detinator c) (sold c')]))"

text \<open>
  \<^verbatim>\<open>operatiuneBancara\<close>: a \<^verbatim>\<open>dynamic_cast\<close> to \<^verbatim>\<open>ContEconomii\<close>; on
  success interest is applied, otherwise the balance is displayed.
\<close>

definition operatiuneBancara :: "cont \<Rightarrow> cont \<times> mesaj list" where
  "operatiuneBancara c =
     (case clasa c of
        Economii dobanda \<Rightarrow> actualizareDobanda dobanda c
      | _ \<Rightarrow> (c, afisareSold c))"

subsection \<open>The abstract contract of a withdrawal\<close>

text \<open>
  The spec's view of an account (section 4): a balance, the amount it may go below
  zero (\<open>limita\<close>: the overdraft of a checking account, the credit limit of a credit
  account, nothing otherwise) and the exception its withdrawal raises.
\<close>

fun limita :: "clasa \<Rightarrow> dublu" where
  "limita (Curent overdraft) = overdraft"
| "limita (Credit _ limitaCredit) = limitaCredit"
| "limita _ = 0"

fun exceptie_retragere :: "clasa \<Rightarrow> exceptie" where
  "exceptie_retragere (Curent _) = ExceptieOverdraft"
| "exceptie_retragere _ = ExceptieRetragere"

fun mesaj_retragere :: "clasa \<Rightarrow> dublu \<Rightarrow> string \<Rightarrow> mesaj" where
  "mesaj_retragere (Curent _) = RetragereCurent"
| "mesaj_retragere (Credit _ _) = RetragereCredit"
| "mesaj_retragere _ = Retragere"

definition retragere_spec :: "dublu \<Rightarrow> exceptie \<Rightarrow> dublu \<Rightarrow> dublu \<Rightarrow> exceptie + dublu" where
  "retragere_spec marja err suma b = (if 0 < suma \<and> suma \<le> b + marja then Inr (b - suma) else Inl err)"

fun rata :: "clasa \<Rightarrow> dublu" where
  "rata (Economii dobanda) = dobanda"
| "rata (Credit dobanda _) = dobanda"
| "rata _ = 0"

text \<open>
  Well-formedness of an account, from the spec's data model (section 3): limits and
  rates are not negative, and the balance is not below the allowance of its class.
  The constructors of \<^verbatim>\<open>src/main.cpp\<close> do not check it.
\<close>

definition cont_bun :: "cont \<Rightarrow> bool" where
  "cont_bun c \<longleftrightarrow> 0 \<le> limita (clasa c) \<and> 0 \<le> rata (clasa c) \<and> - limita (clasa c) \<le> sold c"

text \<open>
  What a display reports, from the spec (section 4): the owner and the balance, then the
  fields of the variant.
\<close>

fun linie_sold :: "mesaj \<Rightarrow> (string \<times> dublu) option" where
  "linie_sold (SoldBancar det s) = Some (det, s)"
| "linie_sold (SoldCurent det s) = Some (det, s)"
| "linie_sold (SoldEconomii det s) = Some (det, s)"
| "linie_sold (SoldCredit det s) = Some (det, s)"
| "linie_sold _ = None"

fun campuri_derivate :: "clasa \<Rightarrow> mesaj list" where
  "campuri_derivate Bancar = []"
| "campuri_derivate (Curent overdraft) = [LimitaOverdraft overdraft]"
| "campuri_derivate (Economii dobanda) = [Dobanda dobanda]"
| "campuri_derivate (Credit dobanda limitaCredit) = [Dobanda dobanda, LimitaCredit limitaCredit]"

lemmas retragere_defs = retragere_def retragere_ContBancar_def retragere_ContCurent_def
  retragere_ContCredit_def

lemmas afisareSold_defs = afisareSold_def afisareSold_ContBancar_def afisareSold_ContCurent_def
  afisareSold_ContEconomii_def afisareSold_ContCredit_def

subsection \<open>Properties of a withdrawal\<close>

text \<open>
  The virtual dispatch and the three bodies agree on one shape: every class checks
  \<open>0 < suma \<le> sold + limita\<close>.
\<close>

lemma retragere_unfold:
  "retragere suma c =
     (if 0 < suma \<and> suma \<le> sold c + limita (clasa c)
      then Inr (c\<lparr>sold := sold c - suma\<rparr>, [mesaj_retragere (clasa c) suma (detinator c)])
      else Inl (exceptie_retragere (clasa c)))"
  by (cases "clasa c") (simp_all add: retragere_defs)

lemma retragere_success:
  assumes "retragere suma c = Inr (c', ms)"
  shows "c' = c\<lparr>sold := sold c - suma\<rparr> \<and> ms = [mesaj_retragere (clasa c) suma (detinator c)]
    \<and> 0 < suma \<and> suma \<le> sold c + limita (clasa c)"
  using assms by (simp add: retragere_unfold split: if_splits)

lemma clasa_actualizareDobanda [simp]: "clasa (fst (actualizareDobanda d c)) = clasa c"
  by (simp add: actualizareDobanda_def Let_def)

lemma operatiuneBancara_Economii:
  "clasa c = Economii d \<Longrightarrow> operatiuneBancara c = actualizareDobanda d c"
  by (simp add: operatiuneBancara_def)

lemma actualizareDobanda_sold:
  "sold (fst (actualizareDobanda dobanda c)) = sold c * (1 + dobanda / 100)"
  by (simp add: actualizareDobanda_def Let_def algebra_simps)

text \<open>
  C1. Refinement: on the balance, every virtual withdrawal implements the spec's
  contract: it succeeds exactly when \<open>0 < suma \<le> sold + limita\<close>, leaving
  \<open>sold - suma\<close>, and otherwise throws the exception of its class.
\<close>

theorem retragere_refines_spec:
  "map_sum id (sold \<circ> fst) (retragere suma c) =
     retragere_spec (limita (clasa c)) (exceptie_retragere (clasa c)) suma (sold c)"
  by (cases "clasa c") (simp_all add: retragere_defs retragere_spec_def)

text \<open>
  C2. Checking account (\<^verbatim>\<open>ContCurent::retragere\<close>): the withdrawal succeeds iff
  \<open>0 < suma \<le> sold + overdraft\<close>, leaving \<open>sold - suma \<ge> -overdraft\<close>; otherwise it
  throws \<^verbatim>\<open>ExceptieOverdraft\<close>.
\<close>

theorem retragere_ContCurent_contract:
  assumes "clasa c = Curent overdraft"
  shows "(case retragere suma c of
            Inr (c', _) \<Rightarrow> 0 < suma \<and> suma \<le> sold c + overdraft \<and> sold c' = sold c - suma
                          \<and> - overdraft \<le> sold c'
          | Inl e \<Rightarrow> e = ExceptieOverdraft \<and> \<not> (0 < suma \<and> suma \<le> sold c + overdraft))"
  using assms by (simp add: retragere_defs)

theorem retragere_ContCurent_contract_witness:
  "clasa \<lparr>detinator = ''Popescu Ioan '', sold = 1000, clasa = Curent 500\<rparr> = Curent 500 \<and>
   (case retragere 800 \<lparr>detinator = ''Popescu Ioan '', sold = 1000, clasa = Curent 500\<rparr> of
      Inr (c', _) \<Rightarrow> 0 < (800::dublu) \<and> 800 \<le> (1000::dublu) + 500 \<and> sold c' = 1000 - 800
                    \<and> - 500 \<le> sold c'
    | Inl e \<Rightarrow> e = ExceptieOverdraft \<and> \<not> (0 < (800::dublu) \<and> 800 \<le> (1000::dublu) + 500))"
  using retragere_ContCurent_contract
    [of "\<lparr>detinator = ''Popescu Ioan '', sold = 1000, clasa = Curent 500\<rparr>" 500 800]
  by (simp add: retragere_unfold)

text \<open>
  C3. Credit account (\<^verbatim>\<open>ContCredit::retragere\<close>): the withdrawal succeeds iff
  \<open>0 < suma \<le> sold + limitaCredit\<close>, leaving \<open>sold - suma \<ge> -limitaCredit\<close>;
  otherwise it throws the base exception \<^verbatim>\<open>ExceptieRetragere\<close>, not
  \<^verbatim>\<open>ExceptieOverdraft\<close>.
\<close>

theorem retragere_ContCredit_contract:
  assumes "clasa c = Credit dobanda limitaCredit"
  shows "(case retragere suma c of
            Inr (c', _) \<Rightarrow> 0 < suma \<and> suma \<le> sold c + limitaCredit \<and> sold c' = sold c - suma
                          \<and> - limitaCredit \<le> sold c'
          | Inl e \<Rightarrow> e = ExceptieRetragere \<and> \<not> (0 < suma \<and> suma \<le> sold c + limitaCredit))"
  using assms by (simp add: retragere_defs)

theorem retragere_ContCredit_contract_witness:
  "clasa \<lparr>detinator = ''Alice'', sold = 1500, clasa = Credit 2 1000\<rparr> = Credit 2 1000 \<and>
   (case retragere 3000 \<lparr>detinator = ''Alice'', sold = 1500, clasa = Credit 2 1000\<rparr> of
      Inr (c', _) \<Rightarrow> 0 < (3000::dublu) \<and> 3000 \<le> (1500::dublu) + 1000 \<and> sold c' = 1500 - 3000
                    \<and> - 1000 \<le> sold c'
    | Inl e \<Rightarrow> e = ExceptieRetragere \<and> \<not> (0 < (3000::dublu) \<and> 3000 \<le> (1500::dublu) + 1000))"
  using retragere_ContCredit_contract
    [of "\<lparr>detinator = ''Alice'', sold = 1500, clasa = Credit 2 1000\<rparr>" 2 1000 3000]
  by (simp add: retragere_unfold)

text \<open>
  C4. Savings account: \<^verbatim>\<open>ContEconomii\<close> inherits the base withdrawal, which
  succeeds iff \<open>0 < suma \<le> sold\<close> and never makes the balance negative; otherwise it
  throws \<^verbatim>\<open>ExceptieRetragere\<close>.
\<close>

theorem retragere_ContEconomii_contract:
  assumes "clasa c = Economii dobanda"
  shows "(case retragere suma c of
            Inr (c', _) \<Rightarrow> 0 < suma \<and> suma \<le> sold c \<and> sold c' = sold c - suma \<and> 0 \<le> sold c'
          | Inl e \<Rightarrow> e = ExceptieRetragere \<and> \<not> (0 < suma \<and> suma \<le> sold c))"
  using assms by (simp add: retragere_unfold)

theorem retragere_ContEconomii_contract_witness:
  "clasa \<lparr>detinator = ''Ionescu Mihai'', sold = 2000, clasa = Economii 2.5\<rparr> = Economii 2.5 \<and>
   (case retragere 500 \<lparr>detinator = ''Ionescu Mihai'', sold = 2000, clasa = Economii 2.5\<rparr> of
      Inr (c', _) \<Rightarrow> 0 < (500::dublu) \<and> 500 \<le> (2000::dublu) \<and> sold c' = 2000 - 500 \<and> 0 \<le> sold c'
    | Inl e \<Rightarrow> e = ExceptieRetragere \<and> \<not> (0 < (500::dublu) \<and> 500 \<le> (2000::dublu)))"
  using retragere_ContEconomii_contract
    [of "\<lparr>detinator = ''Ionescu Mihai'', sold = 2000, clasa = Economii 2.5\<rparr>" "2.5" 500]
  by (simp add: retragere_unfold)

text \<open>
  C5. Error path: a withdrawal of a non-positive amount always throws, on every class,
  the exception of that class (\<^verbatim>\<open>ExceptieOverdraft\<close> for a checking account,
  \<^verbatim>\<open>ExceptieRetragere\<close> otherwise); no object is produced.
\<close>

theorem retragere_nepozitiva:
  "suma \<le> 0 \<Longrightarrow> retragere suma c = Inl (exceptie_retragere (clasa c))"
  by (simp add: retragere_unfold)

theorem retragere_nepozitiva_witness:
  "(0::dublu) \<le> 0 \<and>
   retragere 0 \<lparr>detinator = ''Alice'', sold = 1500, clasa = Credit 2 1000\<rparr> = Inl ExceptieRetragere"
  using retragere_nepozitiva [of 0 "\<lparr>detinator = ''Alice'', sold = 1500, clasa = Credit 2 1000\<rparr>"]
  by simp

text \<open>
  Well-formedness is kept by a successful withdrawal and by \<^verbatim>\<open>operatiuneBancara\<close>
  (interest at a non-negative rate on a non-negative savings balance).
\<close>

lemma retragere_cont_bun:
  "cont_bun c \<Longrightarrow> retragere suma c = Inr (c', ms) \<Longrightarrow> cont_bun c'"
  by (auto simp: cont_bun_def dest!: retragere_success)

lemma operatiuneBancara_cont_bun:
  "cont_bun c \<Longrightarrow> cont_bun (fst (operatiuneBancara c))"
proof (cases "clasa c")
  case (Economii d)
  moreover assume "cont_bun c"
  ultimately have "0 \<le> d" and "0 \<le> sold c" by (simp_all add: cont_bun_def)
  then have "0 \<le> sold c * (1 + d / 100)" by simp
  with Economii \<open>cont_bun c\<close> show ?thesis
    by (simp add: operatiuneBancara_Economii actualizareDobanda_sold cont_bun_def)
qed (simp_all add: operatiuneBancara_def)

text \<open>
  C7. Compounding: \<open>n\<close> calls of \<^verbatim>\<open>operatiuneBancara\<close> on a savings account with
  rate \<open>d\<close> multiply its balance by \<open>(1 + d/100)^n\<close>.
\<close>

theorem operatiuneBancara_compus:
  assumes "clasa c = Economii d"
  shows "sold (((fst \<circ> operatiuneBancara) ^^ n) c) = sold c * (1 + d / 100) ^ n"
proof (induction n)
  case 0
  show ?case by simp
next
  case (Suc n)
  have "clasa (((\<lambda>a. fst (operatiuneBancara a)) ^^ n) c) = Economii d"
    using assms by (induction n) (simp_all add: operatiuneBancara_Economii)
  with Suc show ?case
    by (simp add: comp_def operatiuneBancara_Economii actualizareDobanda_sold)
qed

theorem operatiuneBancara_compus_witness:
  "clasa \<lparr>detinator = ''Ionescu Mihai'', sold = 2000, clasa = Economii 2.5\<rparr> = Economii 2.5 \<and>
   sold (((fst \<circ> operatiuneBancara) ^^ 1) \<lparr>detinator = ''Ionescu Mihai'', sold = 2000,
     clasa = Economii 2.5\<rparr>) = 2050"
  using operatiuneBancara_compus
    [of "\<lparr>detinator = ''Ionescu Mihai'', sold = 2000, clasa = Economii 2.5\<rparr>" "2.5" 1]
  by simp

text \<open>
  C8. \<^verbatim>\<open>operatiuneBancara\<close> changes an account exactly when it is a savings account
  with a non-zero rate and a non-zero balance; checking, credit and base accounts are
  only displayed.
\<close>

theorem operatiuneBancara_schimba:
  "fst (operatiuneBancara c) \<noteq> c \<longleftrightarrow> (\<exists>d. clasa c = Economii d \<and> d \<noteq> 0 \<and> sold c \<noteq> 0)"
  by (cases "clasa c") (auto simp: operatiuneBancara_def actualizareDobanda_def Let_def
      dest: arg_cong [where f = sold])

text \<open>
  C9. Interest strictly raises a positive balance when the rate is positive.
\<close>

theorem actualizareDobanda_creste:
  "0 < dobanda \<Longrightarrow> 0 < sold c \<Longrightarrow> sold c < sold (fst (actualizareDobanda dobanda c))"
  by (simp add: actualizareDobanda_sold)

theorem actualizareDobanda_creste_witness:
  "0 < (2.5::dublu) \<and> 0 < sold \<lparr>detinator = ''Ionescu Mihai'', sold = 2000, clasa = Economii 2.5\<rparr> \<and>
   sold \<lparr>detinator = ''Ionescu Mihai'', sold = 2000, clasa = Economii 2.5\<rparr> <
     sold (fst (actualizareDobanda 2.5
       \<lparr>detinator = ''Ionescu Mihai'', sold = 2000, clasa = Economii 2.5\<rparr>))"
  using actualizareDobanda_creste
    [of "2.5" "\<lparr>detinator = ''Ionescu Mihai'', sold = 2000, clasa = Economii 2.5\<rparr>"]
  by simp

text \<open>
  C10. On a balance that is zero or negative, interest at a positive rate multiplies it
  by \<open>1 + d/100\<close>: a zero balance stays zero and a negative balance decreases. The
  spec's "strictly increases when the rate is positive" holds only for positive balances.
\<close>

theorem actualizareDobanda_nepozitiv:
  assumes "sold c \<le> 0" and "0 < dobanda"
  shows "sold (fst (actualizareDobanda dobanda c)) = sold c * (1 + dobanda / 100) \<and>
         (sold c < 0 \<longrightarrow> sold (fst (actualizareDobanda dobanda c)) < sold c) \<and>
         (sold c = 0 \<longrightarrow> sold (fst (actualizareDobanda dobanda c)) = 0)"
proof -
  have neg: "sold c < 0 \<Longrightarrow> sold c * (dobanda / 100) < 0"
    using assms(2) by (simp add: mult_neg_pos)
  show ?thesis
    using neg by (auto simp: actualizareDobanda_def Let_def algebra_simps)
qed

theorem actualizareDobanda_nepozitiv_witness:
  "sold \<lparr>detinator = ''X'', sold = -100, clasa = Economii 5\<rparr> \<le> 0 \<and> (0::dublu) < 5 \<and>
   sold (fst (actualizareDobanda 5 \<lparr>detinator = ''X'', sold = -100, clasa = Economii 5\<rparr>)) = -105 \<and>
   sold (fst (actualizareDobanda 5 \<lparr>detinator = ''X'', sold = -100, clasa = Economii 5\<rparr>)) < -100"
  using actualizareDobanda_nepozitiv [of "\<lparr>detinator = ''X'', sold = -100, clasa = Economii 5\<rparr>" 5]
  by simp

text \<open>
  C17. Display: for every class, \<^verbatim>\<open>afisareSold\<close> prints one balance line first, with
  the owner and the current balance, followed by exactly the fields of the dynamic class
  (the overdraft; the rate; the rate and the credit limit; nothing for the base class),
  and no further balance line.
\<close>

theorem afisareSold_raport:
  "linie_sold (hd (afisareSold c)) = Some (detinator c, sold c) \<and>
   tl (afisareSold c) = campuri_derivate (clasa c) \<and>
   list_all (\<lambda>m. linie_sold m = None) (tl (afisareSold c))"
  by (cases "clasa c") (simp_all add: afisareSold_defs)

end
