(* ===== verification/Registru.thy ===== *)
theory Registru
  imports Cont
begin

text \<open>
  Object lifetime in \<^verbatim>\<open>src/main.cpp\<close>: the constructors and destructors of the four
  classes, the static counter \<^verbatim>\<open>ContBancar::numarConturiActive_\<close> (a 32-bit
  \<^verbatim>\<open>int\<close>, initialised to 0 at line 74) and method calls through the address of a
  live object. The program state \<open>stare\<close> holds the live objects (a map from
  addresses), the next free address, the counter and the console output so far. Every
  operation is a computation of \<open>(stare, eroare, 'a) exc\<close>: a C++ exception is
  \<open>Inl (Exceptie e)\<close>, an access to an address that holds no live object (undefined
  behaviour in C++) is \<open>Inl ComportamentNedefinit\<close>.
  A constructor chain runs base first (\<^verbatim>\<open>ContBancar\<close> prints and increments), then
  the derived body; a destructor chain runs the derived body first, then
  \<^verbatim>\<open>~ContBancar\<close> (prints and decrements), then the storage is released.
  \<open>accesibil\<close> is the set of states reachable by any sequence of operations, and
  \<open>inv_stare\<close> its invariant: the counter is the number of live objects.
\<close>

record stare =
  obiecte :: "adresa \<rightharpoonup> cont"
  urmatoareaAdresa :: adresa
  contorConturi :: int32
  iesire :: "mesaj list"

type_synonym 'a prog = "(stare, eroare, 'a) exc"

definition stare_initiala :: stare where
  "stare_initiala = \<lparr>obiecte = Map.empty, urmatoareaAdresa = 0, contorConturi = 0, iesire = []\<rparr>"

text \<open>\<^verbatim>\<open>std::cout << ...\<close>: append lines to the output.\<close>

definition scrie :: "mesaj list \<Rightarrow> unit prog" where
  "scrie ms st = (Inr (), st\<lparr>iesire := iesire st @ ms\<rparr>)"

text \<open>Reading or writing the object at an address; no live object there is undefined behaviour.\<close>

definition citeste :: "adresa \<Rightarrow> cont prog" where
  "citeste a st = (case obiecte st a of None \<Rightarrow> (Inl ComportamentNedefinit, st) | Some c \<Rightarrow> (Inr c, st))"

definition actualizeaza :: "adresa \<Rightarrow> cont \<Rightarrow> unit prog" where
  "actualizeaza a c st =
     (case obiecte st a of
        None \<Rightarrow> (Inl ComportamentNedefinit, st)
      | Some _ \<Rightarrow> (Inr (), st\<lparr>obiecte := (obiecte st)(a \<mapsto> c)\<rparr>))"

subsection \<open>Constructors\<close>

text \<open>
  \<^verbatim>\<open>ContBancar::ContBancar\<close>: the object gets fresh storage with its fields (the
  dynamic type \<open>k\<close> and the derived fields included, which the derived constructor
  initialises before its body runs), prints, and increments the counter.
\<close>

definition ContBancar_ctor :: "string \<Rightarrow> dublu \<Rightarrow> clasa \<Rightarrow> adresa prog" where
  "ContBancar_ctor det soldInitial k st =
     (let a = urmatoareaAdresa st
      in (Inr a, st\<lparr>obiecte := (obiecte st)(a \<mapsto> \<lparr>detinator = det, sold = soldInitial, clasa = k\<rparr>),
                   urmatoareaAdresa := Suc a,
                   contorConturi := contorConturi st + 1,
                   iesire := iesire st @ [CtorBancar det]\<rparr>))"

definition ContCurent_ctor :: "string \<Rightarrow> dublu \<Rightarrow> dublu \<Rightarrow> adresa prog" where
  "ContCurent_ctor det soldInitial overdraft =
     bind_e (ContBancar_ctor det soldInitial (Curent overdraft))
       (\<lambda>a. then_e (scrie [CtorCurent det]) (return_e a))"

definition ContEconomii_ctor :: "string \<Rightarrow> dublu \<Rightarrow> dublu \<Rightarrow> adresa prog" where
  "ContEconomii_ctor det soldInitial dobanda =
     bind_e (ContBancar_ctor det soldInitial (Economii dobanda))
       (\<lambda>a. then_e (scrie [CtorEconomii det]) (return_e a))"

definition ContCredit_ctor :: "string \<Rightarrow> dublu \<Rightarrow> dublu \<Rightarrow> dublu \<Rightarrow> adresa prog" where
  "ContCredit_ctor det soldInitial dobanda limitaCredit =
     bind_e (ContBancar_ctor det soldInitial (Credit dobanda limitaCredit))
       (\<lambda>a. then_e (scrie [CtorCredit det]) (return_e a))"

text \<open>A declaration of an object of the class that \<open>k\<close> names.\<close>

definition nou :: "string \<Rightarrow> dublu \<Rightarrow> clasa \<Rightarrow> adresa prog" where
  "nou det soldInitial k =
     (case k of
        Bancar \<Rightarrow> ContBancar_ctor det soldInitial Bancar
      | Curent overdraft \<Rightarrow> ContCurent_ctor det soldInitial overdraft
      | Economii dobanda \<Rightarrow> ContEconomii_ctor det soldInitial dobanda
      | Credit dobanda limitaCredit \<Rightarrow> ContCredit_ctor det soldInitial dobanda limitaCredit)"

subsection \<open>Destructors\<close>

text \<open>\<^verbatim>\<open>ContBancar::~ContBancar\<close>: prints, decrements, and the storage is released.\<close>

definition ContBancar_dtor :: "adresa \<Rightarrow> unit prog" where
  "ContBancar_dtor a st =
     (case obiecte st a of
        None \<Rightarrow> (Inl ComportamentNedefinit, st)
      | Some c \<Rightarrow> (Inr (), st\<lparr>obiecte := (obiecte st)(a := None),
                             contorConturi := contorConturi st - 1,
                             iesire := iesire st @ [DtorBancar (detinator c)]\<rparr>))"

definition ContCurent_dtor :: "adresa \<Rightarrow> unit prog" where
  "ContCurent_dtor a =
     bind_e (citeste a) (\<lambda>c. then_e (scrie [DtorCurent (detinator c)]) (ContBancar_dtor a))"

definition ContEconomii_dtor :: "adresa \<Rightarrow> unit prog" where
  "ContEconomii_dtor a =
     bind_e (citeste a) (\<lambda>c. then_e (scrie [DtorEconomii (detinator c)]) (ContBancar_dtor a))"

definition ContCredit_dtor :: "adresa \<Rightarrow> unit prog" where
  "ContCredit_dtor a =
     bind_e (citeste a) (\<lambda>c. then_e (scrie [DtorCredit (detinator c)]) (ContBancar_dtor a))"

text \<open>The virtual destructor: the chain of the dynamic type.\<close>

definition distruge :: "adresa \<Rightarrow> unit prog" where
  "distruge a =
     bind_e (citeste a) (\<lambda>c.
       case clasa c of
         Bancar \<Rightarrow> ContBancar_dtor a
       | Curent _ \<Rightarrow> ContCurent_dtor a
       | Economii _ \<Rightarrow> ContEconomii_dtor a
       | Credit _ _ \<Rightarrow> ContCredit_dtor a)"

subsection \<open>Calls on live objects\<close>

definition numarConturiActive :: "int prog" where
  "numarConturiActive st = (Inr (sint (contorConturi st)), st)"

definition apel_afisareSold :: "adresa \<Rightarrow> unit prog" where
  "apel_afisareSold a = bind_e (citeste a) (\<lambda>c. scrie (afisareSold c))"

definition apel_retragere :: "adresa \<Rightarrow> dublu \<Rightarrow> unit prog" where
  "apel_retragere a suma =
     bind_e (citeste a) (\<lambda>c.
       case retragere suma c of
         Inl e \<Rightarrow> raise_e (Exceptie e)
       | Inr (c', ms) \<Rightarrow> then_e (actualizeaza a c') (scrie ms))"

definition apel_operatiuneBancara :: "adresa \<Rightarrow> unit prog" where
  "apel_operatiuneBancara a =
     bind_e (citeste a) (\<lambda>c.
       case operatiuneBancara c of (c', ms) \<Rightarrow> then_e (actualizeaza a c') (scrie ms))"

subsection \<open>Any sequence of operations\<close>

datatype operatie =
    Construieste string dublu clasa
  | Distruge adresa
  | Retrage adresa dublu
  | Opereaza adresa
  | Afiseaza adresa

fun executa :: "operatie \<Rightarrow> unit prog" where
  "executa (Construieste det s k) = bind_e (nou det s k) (\<lambda>_. return_e ())"
| "executa (Distruge a) = distruge a"
| "executa (Retrage a suma) = apel_retragere a suma"
| "executa (Opereaza a) = apel_operatiuneBancara a"
| "executa (Afiseaza a) = apel_afisareSold a"

primrec ruleaza :: "operatie list \<Rightarrow> unit prog" where
  "ruleaza [] = return_e ()"
| "ruleaza (op # ops) = then_e (executa op) (ruleaza ops)"

inductive accesibil :: "stare \<Rightarrow> bool" where
  initial: "accesibil stare_initiala"
| pas: "accesibil st \<Longrightarrow> accesibil (snd (executa op st))"

definition inv_stare :: "stare \<Rightarrow> bool" where
  "inv_stare st \<longleftrightarrow> finite (dom (obiecte st))
     \<and> contorConturi st = word_of_nat (card (dom (obiecte st)))
     \<and> (\<forall>a \<in> dom (obiecte st). a < urmatoareaAdresa st)"

fun construieri :: "operatie list \<Rightarrow> nat" where
  "construieri [] = 0"
| "construieri (Construieste _ _ _ # ops) = Suc (construieri ops)"
| "construieri (_ # ops) = construieri ops"

fun distrugeri :: "operatie list \<Rightarrow> nat" where
  "distrugeri [] = 0"
| "distrugeri (Distruge _ # ops) = Suc (distrugeri ops)"
| "distrugeri (_ # ops) = distrugeri ops"

text \<open>The derived part of each constructor and destructor chain, and the destructor line that mirrors a constructor line.\<close>

fun mesaje_ctor_derivat :: "clasa \<Rightarrow> string \<Rightarrow> mesaj list" where
  "mesaje_ctor_derivat Bancar det = []"
| "mesaje_ctor_derivat (Curent _) det = [CtorCurent det]"
| "mesaje_ctor_derivat (Economii _) det = [CtorEconomii det]"
| "mesaje_ctor_derivat (Credit _ _) det = [CtorCredit det]"

fun mesaje_dtor_derivat :: "clasa \<Rightarrow> string \<Rightarrow> mesaj list" where
  "mesaje_dtor_derivat Bancar det = []"
| "mesaje_dtor_derivat (Curent _) det = [DtorCurent det]"
| "mesaje_dtor_derivat (Economii _) det = [DtorEconomii det]"
| "mesaje_dtor_derivat (Credit _ _) det = [DtorCredit det]"


fun pereche :: "mesaj \<Rightarrow> mesaj" where
  "pereche (CtorBancar d) = DtorBancar d"
| "pereche (CtorCurent d) = DtorCurent d"
| "pereche (CtorEconomii d) = DtorEconomii d"
| "pereche (CtorCredit d) = DtorCredit d"
| "pereche m = m"

lemma nou_eq:
  "nou det s k st =
     (Inr (urmatoareaAdresa st),
      st\<lparr>obiecte := (obiecte st)(urmatoareaAdresa st \<mapsto> \<lparr>detinator = det, sold = s, clasa = k\<rparr>),
         urmatoareaAdresa := Suc (urmatoareaAdresa st),
         contorConturi := contorConturi st + 1,
         iesire := iesire st @ CtorBancar det # mesaje_ctor_derivat k det\<rparr>)"
  by (cases k) (simp_all add: nou_def ContBancar_ctor_def ContCurent_ctor_def ContEconomii_ctor_def
      ContCredit_ctor_def scrie_def exec_simps Let_def)

lemma distruge_eq:
  "distruge a st =
     (case obiecte st a of
        None \<Rightarrow> (Inl ComportamentNedefinit, st)
      | Some c \<Rightarrow> (Inr (), st\<lparr>obiecte := (obiecte st)(a := None),
                             contorConturi := contorConturi st - 1,
                             iesire := iesire st @ mesaje_dtor_derivat (clasa c) (detinator c)
                                       @ [DtorBancar (detinator c)]\<rparr>))"
  by (cases "obiecte st a"; cases "clasa (the (obiecte st a))")
     (simp_all add: distruge_def citeste_def ContBancar_dtor_def ContCurent_dtor_def
      ContEconomii_dtor_def ContCredit_dtor_def scrie_def exec_simps)

lemma apel_retragere_eq:
  "apel_retragere a suma st =
     (case obiecte st a of
        None \<Rightarrow> (Inl ComportamentNedefinit, st)
      | Some c \<Rightarrow> (case retragere suma c of
                    Inl e \<Rightarrow> (Inl (Exceptie e), st)
                  | Inr (c', ms) \<Rightarrow> (Inr (), st\<lparr>obiecte := (obiecte st)(a \<mapsto> c'),
                                               iesire := iesire st @ ms\<rparr>)))"
  by (auto simp: apel_retragere_def citeste_def actualizeaza_def scrie_def exec_simps
      split: option.split sum.split)

lemma apel_operatiuneBancara_eq:
  "apel_operatiuneBancara a st =
     (case obiecte st a of
        None \<Rightarrow> (Inl ComportamentNedefinit, st)
      | Some c \<Rightarrow> (Inr (), st\<lparr>obiecte := (obiecte st)(a \<mapsto> fst (operatiuneBancara c)),
                             iesire := iesire st @ snd (operatiuneBancara c)\<rparr>))"
  by (auto simp: apel_operatiuneBancara_def citeste_def actualizeaza_def scrie_def exec_simps
      split: option.split prod.split)

lemma apel_afisareSold_eq:
  "apel_afisareSold a st =
     (case obiecte st a of
        None \<Rightarrow> (Inl ComportamentNedefinit, st)
      | Some c \<Rightarrow> (Inr (), st\<lparr>iesire := iesire st @ afisareSold c\<rparr>))"
  by (auto simp: apel_afisareSold_def citeste_def scrie_def exec_simps split: option.split)


lemma inv_stare_initiala: "inv_stare stare_initiala"
  by (simp add: inv_stare_def stare_initiala_def)


lemma inv_stare_iesire [simp]: "inv_stare (st\<lparr>iesire := out\<rparr>) = inv_stare st"
  by (simp add: inv_stare_def)

lemma inv_stare_actualizare:
  assumes "inv_stare st" and "obiecte st a = Some c"
  shows "inv_stare (st\<lparr>obiecte := (obiecte st)(a \<mapsto> c')\<rparr>)"
proof -
  from assms(2) have "dom ((obiecte st)(a \<mapsto> c')) = dom (obiecte st)" by auto
  with assms(1) show ?thesis by (simp add: inv_stare_def)
qed

lemma inv_stare_nou:
  assumes "inv_stare st"
  shows "inv_stare (snd (nou det s k st))"
proof -
  let ?a = "urmatoareaAdresa st"
  from assms have fresh: "?a \<notin> dom (obiecte st)" and fin: "finite (dom (obiecte st))"
    by (auto simp: inv_stare_def)
  with assms show ?thesis
    by (auto simp: nou_eq inv_stare_def less_Suc_eq)
qed

lemma inv_stare_distruge:
  assumes "inv_stare st"
  shows "inv_stare (snd (distruge a st))"
proof (cases "obiecte st a")
  case None
  with assms show ?thesis by (simp add: distruge_eq)
next
  case (Some c)
  with assms have "0 < card (dom (obiecte st))"
    by (auto simp: inv_stare_def intro: card_dom_delete_pos)
  moreover from Some have "a \<in> dom (obiecte st)" by blast
  ultimately show ?thesis using Some assms
    by (auto simp: distruge_eq inv_stare_def word_of_nat_pred card_Diff_singleton)
qed

lemma inv_stare_executa:
  assumes "inv_stare st"
  shows "inv_stare (snd (executa op st))"
proof (cases op)
  case (Construieste det s k)
  then have "snd (executa op st) = snd (nou det s k st)"
    by (simp add: exec_simps nou_eq)
  with assms show ?thesis by (simp add: inv_stare_nou)
next
  case (Distruge a)
  with assms show ?thesis by (simp add: inv_stare_distruge)
next
  case (Retrage a suma)
  with assms show ?thesis
    by (auto simp: apel_retragere_eq inv_stare_actualizare split: option.split sum.split)
next
  case (Opereaza a)
  with assms show ?thesis
    by (auto simp: apel_operatiuneBancara_eq inv_stare_actualizare split: option.split)
next
  case (Afiseaza a)
  with assms show ?thesis
    by (auto simp: apel_afisareSold_eq inv_stare_def split: option.split)
qed

text \<open>
  C11. Invariant of the object store: in every state reachable by any sequence of
  constructions, destructions and method calls, the static counter equals (as a 32-bit
  word) the number of live objects, and every live object sits below the next free address.
\<close>

theorem accesibil_inv_stare: "accesibil st \<Longrightarrow> inv_stare st"
proof (induction rule: accesibil.induct)
  case initial
  show ?case by (rule inv_stare_initiala)
next
  case (pas st op)
  from pas.IH show ?case by (rule inv_stare_executa)
qed

text \<open>
  C12. Bounds: in a reachable state with fewer than \<open>2^31\<close> live objects,
  \<^verbatim>\<open>numarConturiActive()\<close> returns exactly that number; the 32-bit counter does not wrap.
\<close>

theorem numarConturiActive_exact:
  assumes "accesibil st" and "card (dom (obiecte st)) < 2 ^ 31"
  shows "numarConturiActive st = (Inr (int (card (dom (obiecte st)))), st)"
proof -
  from assms(1) have "inv_stare st"
    by (induction rule: accesibil.induct) (simp_all add: inv_stare_initiala inv_stare_executa)
  with assms(2) show ?thesis
    by (simp add: numarConturiActive_def inv_stare_def sint_word_of_nat_small)
qed

lemma construieri_Cons: "construieri (op # ops) = construieri [op] + construieri ops"
  by (cases op) simp_all

lemma distrugeri_Cons: "distrugeri (op # ops) = distrugeri [op] + distrugeri ops"
  by (cases op) simp_all

lemma executa_card:
  assumes "executa op st = (Inr u, st')" and "inv_stare st"
  shows "card (dom (obiecte st')) + distrugeri [op] = card (dom (obiecte st)) + construieri [op]"
proof (cases op)
  case (Construieste det s k)
  from assms(2) have "urmatoareaAdresa st \<notin> dom (obiecte st)" and "finite (dom (obiecte st))"
    by (auto simp: inv_stare_def)
  then have "card (insert (urmatoareaAdresa st) (dom (obiecte st))) = Suc (card (dom (obiecte st)))"
    by simp
  with assms(1) Construieste show ?thesis by (auto simp: exec_simps nou_eq)
next
  case (Distruge a)
  with assms obtain c where c: "obiecte st a = Some c"
    by (cases "obiecte st a") (simp_all add: distruge_eq)
  with assms(2) have "0 < card (dom (obiecte st))" and "a \<in> dom (obiecte st)"
    by (auto simp: inv_stare_def intro: card_dom_delete_pos)
  then have "Suc (card (dom (obiecte st) - {a})) = card (dom (obiecte st))"
    by (simp add: card_Diff_singleton)
  with assms Distruge c show ?thesis by (auto simp: distruge_eq)
next
  case (Retrage a suma)
  with assms show ?thesis
    by (auto simp: apel_retragere_eq split: option.splits sum.splits)
next
  case (Opereaza a)
  with assms show ?thesis
    by (auto simp: apel_operatiuneBancara_eq split: option.splits)
next
  case (Afiseaza a)
  with assms show ?thesis
    by (auto simp: apel_afisareSold_eq split: option.splits)
qed

lemma ruleaza_card_inv:
  "ruleaza ops st = (Inr (), st') \<Longrightarrow> inv_stare st \<Longrightarrow>
     inv_stare st' \<and>
     card (dom (obiecte st')) + distrugeri ops = card (dom (obiecte st)) + construieri ops"
proof (induction ops arbitrary: st)
  case Nil
  then show ?case by (simp add: exec_simps)
next
  case (Cons op ops)
  obtain r st1 where ex: "executa op st = (r, st1)" by fastforce
  with Cons.prems obtain u where r: "r = Inr u" and run: "ruleaza ops st1 = (Inr (), st')"
    by (cases r) (auto simp: exec_simps)
  have inv1: "inv_stare st1"
    using inv_stare_executa [OF Cons.prems(2), of op] ex by simp
  have c1: "card (dom (obiecte st1)) + distrugeri [op] = card (dom (obiecte st)) + construieri [op]"
    using executa_card [of op st u st1] ex r Cons.prems(2) by simp
  from Cons.IH [OF run inv1] have inv': "inv_stare st'"
    and c2: "card (dom (obiecte st')) + distrugeri ops = card (dom (obiecte st1)) + construieri ops"
    by simp_all
  have "card (dom (obiecte st')) + distrugeri (op # ops) = card (dom (obiecte st)) + construieri (op # ops)"
    using c1 c2 construieri_Cons [of op ops] distrugeri_Cons [of op ops] by linarith
  with inv' show ?case by simp
qed

text \<open>
  C13. After a run of \<open>N\<close> constructions and \<open>M\<close> destructions from the start of the
  process that ends without error (\<open>N < 2^31\<close>), \<^verbatim>\<open>numarConturiActive()\<close> returns
  \<open>N - M\<close>.
\<close>

theorem ruleaza_numarConturiActive:
  assumes "ruleaza ops stare_initiala = (Inr (), st)" and "construieri ops < 2 ^ 31"
  shows "numarConturiActive st = (Inr (int (construieri ops) - int (distrugeri ops)), st)"
proof -
  have "card (dom (obiecte stare_initiala)) = 0" by (simp add: stare_initiala_def)
  with ruleaza_card_inv [OF assms(1) inv_stare_initiala]
  have inv: "inv_stare st"
    and n: "card (dom (obiecte st)) + distrugeri ops = construieri ops"
    by simp_all
  from n assms(2) have small: "card (dom (obiecte st)) < 2 ^ 31" by linarith
  from n have "int (card (dom (obiecte st))) = int (construieri ops) - int (distrugeri ops)"
    by linarith
  with inv small show ?thesis
    by (simp add: numarConturiActive_def inv_stare_def sint_word_of_nat_small)
qed

text \<open>
  C14. Ordering of the constructor and destructor chains: declaring an object prints the
  base constructor line first and then the derived one; destroying it prints the mirror
  image (derived destructor first, \<^verbatim>\<open>~ContBancar\<close> last), and the counter returns to
  its value before the declaration.
\<close>

theorem ciclu_viata_ordine:
  assumes "nou det s k st = (Inr a, st1)"
  shows "\<exists>st2 ms. distruge a st1 = (Inr (), st2) \<and> ms \<noteq> [] \<and> hd ms = CtorBancar det
     \<and> iesire st2 = iesire st @ ms @ map pereche (rev ms)
     \<and> contorConturi st2 = contorConturi st"
proof -
  let ?ms = "CtorBancar det # mesaje_ctor_derivat k det"
  have rev: "mesaje_dtor_derivat k det = map pereche (rev (mesaje_ctor_derivat k det))"
    by (cases k) simp_all
  from assms show ?thesis
    by (auto simp: nou_eq distruge_eq rev intro!: exI [where x = ?ms])
qed

theorem accesibil_inv_stare_witness:
  "accesibil (snd (executa (Construieste ''A'' 100 Bancar) stare_initiala)) \<and>
   inv_stare (snd (executa (Construieste ''A'' 100 Bancar) stare_initiala))"
proof -
  have r: "accesibil (snd (executa (Construieste ''A'' 100 Bancar) stare_initiala))"
    by (rule accesibil.pas [OF accesibil.initial])
  show ?thesis using r accesibil_inv_stare [OF r] by simp
qed

theorem numarConturiActive_exact_witness:
  "accesibil (snd (executa (Construieste ''A'' 100 Bancar) stare_initiala)) \<and>
   card (dom (obiecte (snd (executa (Construieste ''A'' 100 Bancar) stare_initiala)))) < 2 ^ 31 \<and>
   fst (numarConturiActive (snd (executa (Construieste ''A'' 100 Bancar) stare_initiala))) = Inr 1"
proof -
  have r: "accesibil (snd (executa (Construieste ''A'' 100 Bancar) stare_initiala))"
    by (rule accesibil.pas [OF accesibil.initial])
  have c: "card (dom (obiecte (snd (executa (Construieste ''A'' 100 Bancar) stare_initiala)))) = 1"
    by (simp add: exec_simps nou_eq stare_initiala_def)
  show ?thesis using r c numarConturiActive_exact [OF r] by simp
qed

theorem ruleaza_numarConturiActive_witness:
  "ruleaza [Construieste ''Popescu Ioan '' 1000 (Curent 500), Construieste ''Ionescu Mihai'' 2000 (Economii 2.5),
            Construieste ''Alice'' 1500 (Credit 2 1000), Distruge 2, Distruge 1]
     stare_initiala =
   (Inr (), snd (ruleaza [Construieste ''Popescu Ioan '' 1000 (Curent 500),
            Construieste ''Ionescu Mihai'' 2000 (Economii 2.5),
            Construieste ''Alice'' 1500 (Credit 2 1000), Distruge 2, Distruge 1] stare_initiala)) \<and>
   fst (numarConturiActive (snd (ruleaza [Construieste ''Popescu Ioan '' 1000 (Curent 500),
            Construieste ''Ionescu Mihai'' 2000 (Economii 2.5),
            Construieste ''Alice'' 1500 (Credit 2 1000), Distruge 2, Distruge 1] stare_initiala))) = Inr 1"
proof -
  let ?ops = "[Construieste ''Popescu Ioan '' 1000 (Curent 500), Construieste ''Ionescu Mihai'' 2000 (Economii 2.5),
            Construieste ''Alice'' 1500 (Credit 2 1000), Distruge 2, Distruge 1]"
  have h: "ruleaza ?ops stare_initiala = (Inr (), snd (ruleaza ?ops stare_initiala))"
    by (simp add: exec_simps nou_eq distruge_eq stare_initiala_def)
  have n: "construieri ?ops < 2 ^ 31" by simp
  show ?thesis using h ruleaza_numarConturiActive [OF h n] by simp
qed

theorem ciclu_viata_ordine_witness:
  "nou ''Alice'' 1500 (Credit 2 1000) stare_initiala =
     (Inr 0, snd (nou ''Alice'' 1500 (Credit 2 1000) stare_initiala)) \<and>
   (\<exists>st2 ms. distruge 0 (snd (nou ''Alice'' 1500 (Credit 2 1000) stare_initiala)) = (Inr (), st2) \<and>
     ms \<noteq> [] \<and> hd ms = CtorBancar ''Alice'' \<and>
     iesire st2 = iesire stare_initiala @ ms @ map pereche (rev ms) \<and>
     contorConturi st2 = contorConturi stare_initiala)"
proof -
  have h: "nou ''Alice'' 1500 (Credit 2 1000) stare_initiala =
     (Inr 0, snd (nou ''Alice'' 1500 (Credit 2 1000) stare_initiala))"
    by (simp add: nou_eq stare_initiala_def)
  show ?thesis using h ciclu_viata_ordine [OF h] by simp
qed

end
