(* ===== verification/Program.thy ===== *)
theory Program
  imports Registru
begin

text \<open>
  The demonstration driver \<^verbatim>\<open>main\<close> of \<^verbatim>\<open>src/main.cpp\<close> (lines 188--209). An
  automatic object declared in a block is \<open>cu_cont\<close>: its constructor chain runs at
  the declaration and its virtual destructor at the end of the block, on the normal path
  and during stack unwinding alike (\<open>finally_e\<close>); nested declarations are nested
  blocks, so objects die in reverse order of construction. The \<^verbatim>\<open>try\<close> block is
  \<open>bloc_try\<close>, its handler \<open>trateaza\<close> (it catches every \<^verbatim>\<open>std::exception\<close>,
  never undefined behaviour), and \<open>main_cu suma\<close> is \<^verbatim>\<open>main\<close> with the amount of
  the final withdrawal as a parameter; \<open>main\<close> is \<open>main_cu 800\<close>.
\<close>

definition cu_cont :: "string \<Rightarrow> dublu \<Rightarrow> clasa \<Rightarrow> (adresa \<Rightarrow> 'a prog) \<Rightarrow> 'a prog" where
  "cu_cont det soldInitial k corp =
     bind_e (nou det soldInitial k) (\<lambda>a. finally_e (corp a) (distruge a))"

definition afiseaza_numar :: "unit prog" where
  "afiseaza_numar = bind_e numarConturiActive (\<lambda>n. scrie [NumarConturi n])"

definition trateaza :: "eroare \<Rightarrow> unit prog" where
  "trateaza err =
     (case err of
        Exceptie e \<Rightarrow> scrie [MesajExceptie (what e)]
      | ComportamentNedefinit \<Rightarrow> raise_e ComportamentNedefinit)"

definition bloc_try :: "dublu \<Rightarrow> unit prog" where
  "bloc_try suma =
     cu_cont ''Popescu Ioan '' 1000.0 (Curent 500.0) (\<lambda>contCurent.
       then_e (apel_operatiuneBancara contCurent)
       (cu_cont ''Ionescu Mihai'' 2000.0 (Economii 2.5) (\<lambda>contEconomii.
          then_e (apel_operatiuneBancara contEconomii)
          (then_e afiseaza_numar
          (cu_cont ''Alice'' 1500.0 (Credit 2.0 1000.0) (\<lambda>contCredit.
             then_e (apel_operatiuneBancara contCredit)
             (apel_retragere contCurent suma)))))))"

definition main_cu :: "dublu \<Rightarrow> int prog" where
  "main_cu suma = then_e (catch_e (bloc_try suma) trateaza) (then_e afiseaza_numar (return_e 0))"

definition main :: "int prog" where
  "main = main_cu 800.0"

definition mesaje_iesire_scop :: "mesaj list" where
  "mesaje_iesire_scop = [DtorCredit ''Alice'', DtorBancar ''Alice'',
                         DtorEconomii ''Ionescu Mihai'', DtorBancar ''Ionescu Mihai'',
                         DtorCurent ''Popescu Ioan '', DtorBancar ''Popescu Ioan '']"

lemmas program_simps = main_def main_cu_def bloc_try_def cu_cont_def afiseaza_numar_def trateaza_def
     exec_simps nou_eq distruge_eq apel_retragere_eq apel_operatiuneBancara_eq numarConturiActive_def
     scrie_def retragere_unfold operatiuneBancara_def actualizareDobanda_def afisareSold_defs Let_def

text \<open>
  C15. For every amount of the final withdrawal the program returns 0, leaves no live
  object and prints the count 0 last. If \<open>0 < suma \<le> 1500\<close> the withdrawal is printed
  and then the objects are destroyed; otherwise the \<^verbatim>\<open>ExceptieOverdraft\<close> unwinds the
  block, all three objects are destroyed first, and only then the handler prints
  \<^verbatim>\<open>what()\<close>.
\<close>

theorem main_cu_rezultat:
  "main_cu suma stare_initiala =
     (Inr 0, \<lparr>obiecte = Map.empty, urmatoareaAdresa = 3, contorConturi = 0,
              iesire = [CtorBancar ''Popescu Ioan '', CtorCurent ''Popescu Ioan '',
                        SoldCurent ''Popescu Ioan '' 1000, LimitaOverdraft 500,
                        CtorBancar ''Ionescu Mihai'', CtorEconomii ''Ionescu Mihai'',
                        DobandaActualizata ''Ionescu Mihai'' 2050,
                        NumarConturi 2,
                        CtorBancar ''Alice'', CtorCredit ''Alice'',
                        SoldCredit ''Alice'' 1500, Dobanda 2, LimitaCredit 1000]
                       @ (if 0 < suma \<and> suma \<le> 1500
                          then RetragereCurent suma ''Popescu Ioan '' # mesaje_iesire_scop
                          else mesaje_iesire_scop @ [MesajExceptie (what ExceptieOverdraft)])
                       @ [NumarConturi 0]\<rparr>)"
  by (cases "0 < suma \<and> suma \<le> 1500") (auto simp: program_simps stare_initiala_def mesaje_iesire_scop_def)

end
