(* ===== verification/Blocuri.thy ===== *)
theory Blocuri
  imports Program
begin

text \<open>
  Block-structured programs over the account API, of which the body of \<^verbatim>\<open>main\<close> is
  one. A statement is a declaration of an automatic object with the statements of its
  scope (\<open>Declara\<close>), a call of \<^verbatim>\<open>retragere\<close>, \<^verbatim>\<open>operatiuneBancara\<close> or
  \<^verbatim>\<open>afisareSold\<close> on an object in scope (named by its distance from the innermost
  declaration, \<open>0\<close> the newest), the print of \<^verbatim>\<open>numarConturiActive()\<close>, or a
  \<^verbatim>\<open>try\<close> block with the handler of \<^verbatim>\<open>main\<close>. \<open>exec_instr\<close> and \<open>exec_bloc\<close>
  give them the semantics of \<open>Program\<close> (\<open>cu_cont\<close>, \<open>trateaza\<close>); C++ name lookup
  makes every call refer to an object in scope, which is \<open>bine_scopat\<close>.
  \<open>program_main\<close> is the body of \<^verbatim>\<open>main\<close>, and the main result says that every
  well-scoped program, from any consistent state, never calls through a dead object and
  leaves the set of live objects and the counter as it found them.
\<close>

datatype instructiune =
    Declara string dublu clasa "instructiune list"
  | ApelRetragere nat dublu
  | ApelOperatiune nat
  | ApelAfisare nat
  | AfiseazaNumar
  | Incearca "instructiune list"

definition obiect_din :: "adresa list \<Rightarrow> nat \<Rightarrow> (adresa \<Rightarrow> unit prog) \<Rightarrow> unit prog" where
  "obiect_din env i f = (if i < length env then f (env ! i) else raise_e ComportamentNedefinit)"

fun exec_instr :: "adresa list \<Rightarrow> instructiune \<Rightarrow> unit prog"
and exec_bloc :: "adresa list \<Rightarrow> instructiune list \<Rightarrow> unit prog" where
  "exec_instr env (Declara det s k corp) = cu_cont det s k (\<lambda>a. exec_bloc (a # env) corp)"
| "exec_instr env (ApelRetragere i suma) = obiect_din env i (\<lambda>a. apel_retragere a suma)"
| "exec_instr env (ApelOperatiune i) = obiect_din env i apel_operatiuneBancara"
| "exec_instr env (ApelAfisare i) = obiect_din env i apel_afisareSold"
| "exec_instr env AfiseazaNumar = afiseaza_numar"
| "exec_instr env (Incearca corp) = catch_e (exec_bloc env corp) trateaza"
| "exec_bloc env [] = return_e ()"
| "exec_bloc env (x # xs) = then_e (exec_instr env x) (exec_bloc env xs)"

fun bine_scopat :: "nat \<Rightarrow> instructiune \<Rightarrow> bool"
and bine_scopat_bloc :: "nat \<Rightarrow> instructiune list \<Rightarrow> bool" where
  "bine_scopat n (Declara _ _ _ corp) = bine_scopat_bloc (Suc n) corp"
| "bine_scopat n (ApelRetragere i _) = (i < n)"
| "bine_scopat n (ApelOperatiune i) = (i < n)"
| "bine_scopat n (ApelAfisare i) = (i < n)"
| "bine_scopat n AfiseazaNumar = True"
| "bine_scopat n (Incearca corp) = bine_scopat_bloc n corp"
| "bine_scopat_bloc n [] = True"
| "bine_scopat_bloc n (x # xs) = (bine_scopat n x \<and> bine_scopat_bloc n xs)"

definition program_main :: "dublu \<Rightarrow> instructiune list" where
  "program_main suma =
     [Incearca
       [Declara ''Popescu Ioan '' 1000.0 (Curent 500.0)
         [ApelOperatiune 0,
          Declara ''Ionescu Mihai'' 2000.0 (Economii 2.5)
            [ApelOperatiune 0,
             AfiseazaNumar,
             Declara ''Alice'' 1500.0 (Credit 2.0 1000.0)
               [ApelOperatiune 0,
                ApelRetragere 2 suma]]]],
      AfiseazaNumar]"

definition pastreaza :: "stare \<Rightarrow> (eroare + unit) \<times> stare \<Rightarrow> bool" where
  "pastreaza st res \<longleftrightarrow>
     (case res of (r, st') \<Rightarrow>
        r \<noteq> Inl ComportamentNedefinit \<and> inv_stare st' \<and> dom (obiecte st') = dom (obiecte st)
        \<and> contorConturi st' = contorConturi st \<and> urmatoareaAdresa st \<le> urmatoareaAdresa st')"

lemma then_e_return_unit [simp]: "then_e m (return_e ()) = (m :: ('s, 'e, unit) exc)"
proof -
  have "(\<lambda>_::unit. return_e ()) = (return_e :: unit \<Rightarrow> ('s, 'e, unit) exc)" by (rule ext) simp
  then show ?thesis by (simp add: then_e_def)
qed

lemma then_e_assoc: "then_e (then_e m n) p = then_e m (then_e n p)"
  by (simp add: then_e_def bind_e_assoc)

lemma then_e_return_left [simp]: "then_e (return_e x) n = n"
  by (simp add: then_e_def)

text \<open>
  \<open>program_main\<close> is the body of \<^verbatim>\<open>main\<close>: with \<^verbatim>\<open>return 0\<close> after it, it is
  \<open>main_cu\<close>.
\<close>

lemma main_cu_program_main:
  "main_cu suma = then_e (exec_bloc [] (program_main suma)) (return_e 0)"
  by (simp add: main_cu_def bloc_try_def program_main_def obiect_din_def then_e_assoc)

lemma env_live: "set env \<subseteq> dom m \<Longrightarrow> i < length env \<Longrightarrow> env ! i \<in> dom m"
  by (meson nth_mem subsetD)

lemma pastreaza_trans:
  assumes "pastreaza st (r1, st1)" and "pastreaza st1 (r2, st2)"
  shows "pastreaza st (r2, st2)"
  using assms by (auto simp: pastreaza_def)

lemma pastreaza_refl:
  "inv_stare st \<Longrightarrow> r \<noteq> Inl ComportamentNedefinit \<Longrightarrow> pastreaza st (r, st\<lparr>iesire := out\<rparr>)"
  by (simp add: pastreaza_def inv_stare_def)

lemma pastreaza_apel:
  assumes "inv_stare st" and "a \<in> dom (obiecte st)"
  shows "pastreaza st (apel_retragere a suma st)" and "pastreaza st (apel_operatiuneBancara a st)"
    and "pastreaza st (apel_afisareSold a st)"
  using assms
  by (auto simp: pastreaza_def apel_retragere_eq apel_operatiuneBancara_eq apel_afisareSold_eq
      inv_stare_actualizare split: option.splits sum.splits)

lemma exec_scop:
  shows "inv_stare st \<Longrightarrow> bine_scopat (length env) x \<Longrightarrow> set env \<subseteq> dom (obiecte st) \<Longrightarrow>
      pastreaza st (exec_instr env x st)"
    and "inv_stare st \<Longrightarrow> bine_scopat_bloc (length env) xs \<Longrightarrow> set env \<subseteq> dom (obiecte st) \<Longrightarrow>
      pastreaza st (exec_bloc env xs st)"
proof (induction env x and env xs arbitrary: st and st rule: exec_instr_exec_bloc.induct)
  case (1 env det s k corp)
  let ?a = "urmatoareaAdresa st"
  obtain st1 where n: "nou det s k st = (Inr ?a, st1)" by (simp add: nou_eq)
  from "1.prems"(1) have fresh: "?a \<notin> dom (obiecte st)" by (auto simp: inv_stare_def)
  from n "1.prems"(1) have inv1: "inv_stare st1" using inv_stare_nou [of st det s k] by simp
  from n have dom1: "dom (obiecte st1) = insert ?a (dom (obiecte st))"
    and cnt1: "contorConturi st1 = contorConturi st + 1"
    and adr1: "urmatoareaAdresa st1 = Suc ?a"
    by (auto simp: nou_eq)
  obtain r2 st2 where b: "exec_bloc (?a # env) corp st1 = (r2, st2)" by fastforce
  from "1.prems" dom1 have "set (?a # env) \<subseteq> dom (obiecte st1)" by auto
  with "1.IH" [of st1 ?a] inv1 "1.prems"(2) b have p2: "pastreaza st1 (r2, st2)" by simp
  then have live: "?a \<in> dom (obiecte st2)" using dom1 by (simp add: pastreaza_def)
  then obtain c where c: "obiecte st2 ?a = Some c" by blast
  let ?st3 = "snd (distruge ?a st2)"
  from p2 have inv3: "inv_stare ?st3" by (simp add: pastreaza_def inv_stare_distruge)
  from c p2 dom1 fresh have dom3: "dom (obiecte ?st3) = dom (obiecte st)"
    by (auto simp: distruge_eq pastreaza_def)
  from c p2 cnt1 have cnt3: "contorConturi ?st3 = contorConturi st"
    by (simp add: distruge_eq pastreaza_def)
  from c p2 adr1 have adr3: "urmatoareaAdresa st \<le> urmatoareaAdresa ?st3"
    by (simp add: distruge_eq pastreaza_def)
  have "exec_instr env (Declara det s k corp) st = (r2, ?st3)"
    using n b c by (simp add: cu_cont_def exec_simps distruge_eq)
  with p2 inv3 dom3 cnt3 adr3 show ?case by (simp add: pastreaza_def)
next
  case (2 env i suma)
  then show ?case by (simp add: obiect_din_def pastreaza_apel env_live)
next
  case (3 env i)
  then show ?case by (simp add: obiect_din_def pastreaza_apel env_live)
next
  case (4 env i)
  then show ?case by (simp add: obiect_din_def pastreaza_apel env_live)
next
  case (5 env)
  then show ?case
    by (simp add: afiseaza_numar_def numarConturiActive_def scrie_def exec_simps pastreaza_refl)
next
  case (6 env corp)
  obtain r st' where b: "exec_bloc env corp st = (r, st')" by fastforce
  from "6.IH" [of st] "6.prems" have "pastreaza st (exec_bloc env corp st)" by simp
  with b have p: "pastreaza st (r, st')" by simp
  show ?case
  proof (cases r)
    case (Inl err)
    with p obtain e where "err = Exceptie e" by (cases err) (auto simp: pastreaza_def)
    with Inl b p show ?thesis
      by (auto simp: exec_simps trateaza_def scrie_def pastreaza_def)
  next
    case (Inr u)
    with b p show ?thesis by (simp add: exec_simps)
  qed
next
  case (7 env)
  then show ?case by (simp add: exec_simps pastreaza_def)
next
  case (8 env x xs)
  obtain r1 st1 where e1: "exec_instr env x st = (r1, st1)" by fastforce
  from "8.IH"(1) [of st] "8.prems" have "pastreaza st (exec_instr env x st)" by simp
  with e1 have p1: "pastreaza st (r1, st1)" by simp
  show ?case
  proof (cases r1)
    case (Inl err)
    with e1 p1 show ?thesis by (simp add: exec_simps)
  next
    case (Inr u)
    obtain r2 st2 where e2: "exec_bloc env xs st1 = (r2, st2)" by fastforce
    from p1 "8.prems" have "inv_stare st1" and "set env \<subseteq> dom (obiecte st1)"
      by (auto simp: pastreaza_def)
    with "8.IH"(2) [of st1] "8.prems"(2) have "pastreaza st1 (exec_bloc env xs st1)" by simp
    with e2 have "pastreaza st1 (r2, st2)" by simp
    with p1 have "pastreaza st (r2, st2)" by (rule pastreaza_trans)
    with Inr e1 e2 show ?thesis by (simp add: exec_simps)
  qed
qed
text \<open>
  C16. Scope discipline: a well-scoped block program run from a consistent state whose
  objects in scope are alive never calls through a dead object (no undefined behaviour,
  whatever it throws), and ends with the same live objects and the same counter: every
  object it declares is destroyed on every path, exceptions included.
\<close>

theorem exec_bloc_scop:
  assumes "inv_stare st" and "bine_scopat_bloc (length env) p" and "set env \<subseteq> dom (obiecte st)"
    and "exec_bloc env p st = (r, st')"
  shows "r \<noteq> Inl ComportamentNedefinit \<and> dom (obiecte st') = dom (obiecte st)
    \<and> contorConturi st' = contorConturi st"
  using exec_scop(2) [OF assms(1-3)] assms(4) by (simp add: pastreaza_def)

theorem exec_bloc_scop_witness:
  "inv_stare stare_initiala \<and> bine_scopat_bloc (length []) (program_main 800) \<and>
   set [] \<subseteq> dom (obiecte stare_initiala) \<and>
   exec_bloc [] (program_main 800) stare_initiala =
     (fst (exec_bloc [] (program_main 800) stare_initiala),
      snd (exec_bloc [] (program_main 800) stare_initiala)) \<and>
   fst (exec_bloc [] (program_main 800) stare_initiala) \<noteq> Inl ComportamentNedefinit"
proof -
  have h1: "inv_stare stare_initiala" by (rule inv_stare_initiala)
  have h2: "bine_scopat_bloc (length []) (program_main 800)" by (simp add: program_main_def)
  have h3: "set [] \<subseteq> dom (obiecte stare_initiala)" by simp
  have h4: "exec_bloc [] (program_main 800) stare_initiala =
     (fst (exec_bloc [] (program_main 800) stare_initiala),
      snd (exec_bloc [] (program_main 800) stare_initiala))" by simp
  show ?thesis using h1 h2 h3 h4 exec_bloc_scop [OF h1 h2 h3 h4] by simp
qed

end
