(* ===== verification/Spec2Isabelle.thy ===== *)
theory Spec2Isabelle
  imports Blocuri
begin

text \<open>
  \<^bold>\<open>A verified model of \<^verbatim>\<open>src/main.cpp\<close> (bank accounts with overdraft, interest and
  credit, and a process-wide count of live accounts).\<close>

  \<^bold>\<open>The program.\<close> One C++ file. A class hierarchy \<^verbatim>\<open>ContBancar\<close> (owner, balance)
  with three subclasses: \<^verbatim>\<open>ContCurent\<close> (checking, overdraft limit, its own withdrawal
  rule, throws \<^verbatim>\<open>ExceptieOverdraft\<close>), \<^verbatim>\<open>ContEconomii\<close> (savings, interest rate,
  \<^verbatim>\<open>actualizareDobanda\<close>, inherits the base withdrawal) and \<^verbatim>\<open>ContCredit\<close> (credit
  limit, its own withdrawal rule, throws the base \<^verbatim>\<open>ExceptieRetragere\<close>). Every
  constructor of the base increments the static \<^verbatim>\<open>int numarConturiActive_\<close>, every
  base destructor decrements it. The free function \<^verbatim>\<open>operatiuneBancara\<close> applies
  interest to a savings account (\<^verbatim>\<open>dynamic_cast\<close>) and displays any other account.
  \<^verbatim>\<open>main\<close> declares three accounts in a \<^verbatim>\<open>try\<close> block, calls
  \<^verbatim>\<open>operatiuneBancara\<close> on each, prints the count, withdraws 800 from the checking
  account, catches any \<^verbatim>\<open>std::exception\<close>, and prints the count again.

  \<^bold>\<open>The library.\<close>
  \<^item> \<open>Prelude\<close>: the types (\<^verbatim>\<open>double\<close> as \<open>dublu = rat\<close>, the counter as
    \<open>int32 = 32 word\<close>, addresses as \<open>nat\<close>) and the exception-state combinators
    \<open>return_e\<close>, \<open>raise_e\<close>, \<open>bind_e\<close>, \<open>then_e\<close>, \<open>catch_e\<close>, \<open>finally_e\<close> that model
    statement sequencing, \<^verbatim>\<open>throw\<close>, \<^verbatim>\<open>try/catch\<close> and stack unwinding, with
    their laws; shared lemmas on 32-bit words and on the store map.
  \<^item> \<open>Exceptii\<close>: \<open>exceptie\<close> (the two exception classes), \<open>what\<close>, and \<open>eroare\<close>,
    which adds undefined behaviour (a call through an address with no live object).
  \<^item> \<open>Cont\<close>: one object. The record \<open>cont\<close> holds the base fields, the datatype
    \<open>clasa\<close> the dynamic type with the derived fields. One definition per method body
    (\<open>afisareSold_ContBancar\<close> \<dots> \<open>afisareSold_ContCredit\<close>,
    \<open>retragere_ContBancar\<close>, \<open>retragere_ContCurent\<close>, \<open>retragere_ContCredit\<close>,
    \<open>actualizareDobanda\<close>), the virtual dispatch (\<open>afisareSold\<close>, \<open>retragere\<close>) and
    \<open>operatiuneBancara\<close>. A method returns the new object and its output lines
    (\<open>mesaj\<close>); a throw is \<open>Inl\<close>. The abstract contract of a withdrawal is
    \<open>retragere_spec\<close> over \<open>limita\<close> (allowance below zero) and
    \<open>exceptie_retragere\<close>; \<open>cont_bun\<close> is the well-formedness of the spec's data model.
  \<^item> \<open>Registru\<close>: object lifetime. The record \<open>stare\<close> holds the live objects
    (\<open>obiecte\<close>), the next address, \<open>contorConturi\<close> (\<^verbatim>\<open>numarConturiActive_\<close>) and
    the console output. The constructor chains \<open>ContBancar_ctor\<close> \<dots> \<open>ContCredit_ctor\<close>
    (selected by \<open>nou\<close>), the destructor chains \<open>ContBancar_dtor\<close> \<dots>
    \<open>ContCredit_dtor\<close> (selected by the virtual \<open>distruge\<close>), \<open>numarConturiActive\<close>,
    and method calls through an address (\<open>apel_retragere\<close>,
    \<open>apel_operatiuneBancara\<close>, \<open>apel_afisareSold\<close>). \<open>operatie\<close> and \<open>executa\<close>
    name every operation, \<open>ruleaza\<close> runs a list of them, and the inductive
    \<open>accesibil\<close> is the set of states reachable by any interleaving.
  \<^item> \<open>Program\<close>: \<^verbatim>\<open>main\<close>. \<open>cu_cont\<close> is an automatic object (constructed at its
    declaration, destroyed at the end of its block on both paths); \<open>bloc_try\<close>,
    \<open>trateaza\<close>, \<open>afiseaza_numar\<close>, \<open>main_cu suma\<close> (the final amount as a parameter)
    and \<open>main = main_cu 800\<close>.
  \<^item> \<open>Blocuri\<close>: the statement forms of \<^verbatim>\<open>main\<close> as a small language
    (\<open>instructiune\<close>: declaration with its scope, calls on objects in scope, count print,
    \<^verbatim>\<open>try\<close>), executed by \<open>exec_instr\<close> / \<open>exec_bloc\<close> through the combinators of
    \<open>Program\<close>; \<open>program_main\<close> is the body of \<^verbatim>\<open>main\<close>; \<open>bine_scopat\<close> is C++
    name lookup (every call names an object in scope).
  \<^item> This theory: the well-formedness of all live accounts, an invariant that spans
    \<open>Cont\<close> and \<open>Registru\<close>.

  \<^bold>\<open>What is proved.\<close> Withdrawals (C1--C5): the dispatch refines the abstract contract;
  the checking, credit and savings rules each succeed exactly on their range and throw
  their class's exception otherwise; a non-positive amount always throws. Invariants
  (C6, C11): every operation keeps all live accounts well formed (when it constructs only
  well-formed ones), and in every reachable state the counter is the number of live
  objects. Interest (C7, C9, C10): \<open>n\<close> applications compound by \<open>(1 + d/100)^n\<close>; at
  a positive rate a positive balance strictly grows, a zero one stays zero and a negative
  one strictly decreases. Dispatch and display (C8, C17): \<^verbatim>\<open>operatiuneBancara\<close>
  changes only savings accounts, and every \<^verbatim>\<open>afisareSold\<close> prints the owner and
  balance, then exactly its class's fields. Counter (C12, C13): no wrap-around below
  \<open>2^31\<close> live objects, and \<open>N\<close> constructions and \<open>M\<close> destructions leave
  \<open>N - M\<close>. Lifetime (C14): constructor and destructor chains print in mirrored order
  and restore the counter. The program (C15): for every amount of the final withdrawal,
  the exact output of \<^verbatim>\<open>main\<close>, a return of 0, no live object, and the destructors
  before the handler when the withdrawal throws. Blocks (C16): every well-scoped block
  program never calls through a dead object and leaves the live objects and the counter
  as it found them, on every path, exceptions included; this is proved by mutual
  computation induction over \<open>exec_instr\<close> and \<open>exec_bloc\<close>. The lemma
  \<open>main_cu_program_main\<close> ties \<open>program_main\<close> to \<^verbatim>\<open>main\<close>.

  \<^bold>\<open>Bounds and termination.\<close> The program has no iteration; every definition is
  non-recursive or structurally recursive, so no fuel is needed. The only bound is the
  32-bit counter: \<open>2^31\<close> live objects would overflow \<^verbatim>\<open>int\<close> (undefined behaviour
  in C++; the word model wraps), so the counting theorems assume fewer.

  \<^bold>\<open>Not modelled.\<close> IEEE-754 rounding of \<^verbatim>\<open>double\<close> (amounts are exact rationals,
  which is what the spec's "plain decimal arithmetic" asks); the text formatting of
  \<^verbatim>\<open>operator<<\<close> (output lines carry the printed values); the separation of
  \<^verbatim>\<open>std::cerr\<close> from \<^verbatim>\<open>std::cout\<close> (one output list in program order).

  \<^bold>\<open>Plan for later sittings.\<close> A refinement of the whole store to an abstract
  multiset of accounts; block programs with exceptions escaping to an outer handler
  (nested \<^verbatim>\<open>try\<close> with rethrow); the reachable states of \<^verbatim>\<open>main\<close> as a step
  relation.
\<close>

definition conturi_bune :: "stare \<Rightarrow> bool" where
  "conturi_bune st \<longleftrightarrow> (\<forall>a c. obiecte st a = Some c \<longrightarrow> cont_bun c)"

fun operatie_buna :: "operatie \<Rightarrow> bool" where
  "operatie_buna (Construieste det s k) = cont_bun \<lparr>detinator = det, sold = s, clasa = k\<rparr>"
| "operatie_buna _ = True"

text \<open>
  C6. Invariant across components: if every live account is well formed (limits and
  rates not negative, balance not below its allowance), it stays so after any operation
  (a withdrawal, \<^verbatim>\<open>operatiuneBancara\<close>, a display, a destruction, or the construction of
  a well-formed account).
\<close>

theorem executa_conturi_bune:
  assumes "conturi_bune st" and "operatie_buna op"
  shows "conturi_bune (snd (executa op st))"
proof (cases op)
  case (Construieste det s k)
  with assms show ?thesis by (auto simp: conturi_bune_def exec_simps nou_eq)
next
  case (Distruge a)
  with assms show ?thesis by (auto simp: conturi_bune_def distruge_eq split: option.split)
next
  case (Retrage a suma)
  with assms show ?thesis
    by (auto simp: conturi_bune_def apel_retragere_eq intro: retragere_cont_bun
        split: option.splits sum.splits)
next
  case (Opereaza a)
  with assms show ?thesis
    by (auto simp: conturi_bune_def apel_operatiuneBancara_eq operatiuneBancara_cont_bun
        split: option.splits)
next
  case (Afiseaza a)
  with assms show ?thesis by (auto simp: conturi_bune_def apel_afisareSold_eq split: option.splits)
qed

theorem executa_conturi_bune_witness:
  "conturi_bune (snd (executa (Construieste ''Popescu Ioan '' 1000 (Curent 500)) stare_initiala)) \<and>
   operatie_buna (Retrage 0 1200) \<and>
   conturi_bune (snd (executa (Retrage 0 1200)
     (snd (executa (Construieste ''Popescu Ioan '' 1000 (Curent 500)) stare_initiala))))"
proof -
  let ?st = "snd (executa (Construieste ''Popescu Ioan '' 1000 (Curent 500)) stare_initiala)"
  have h1: "conturi_bune ?st"
    by (simp add: conturi_bune_def exec_simps nou_eq stare_initiala_def cont_bun_def)
  have h2: "operatie_buna (Retrage 0 1200)" by simp
  show ?thesis using h1 h2 executa_conturi_bune [OF h1 h2] by simp
qed

end
